theory Spec2Isabelle
  imports Complex_Main "HOL-Library.Word"
begin

section \<open>JavaScript numbers\<close>

text \<open>
  A JavaScript Number is a finite double, \<open>Infinity\<close>, \<open>-Infinity\<close> or \<open>NaN\<close>.
  Finite doubles are idealised as reals: the special values and the way they arise
  (division by zero, logarithm of a negative number, \<open>Infinity - Infinity\<close>) follow
  IEEE 754, while rounding, overflow of a finite result to \<open>Infinity\<close>, underflow and the
  sign of zero are not represented (a zero divisor is taken as \<open>+0\<close>).
\<close>

datatype num = Fin real | PInf | NInf | NaN

instantiation num :: "{plus,minus,times,inverse,uminus,abs,ord}"
begin

fun uminus_num :: "num \<Rightarrow> num" where
  "uminus_num (Fin a) = Fin (- a)"
| "uminus_num PInf = NInf"
| "uminus_num NInf = PInf"
| "uminus_num NaN = NaN"

fun plus_num :: "num \<Rightarrow> num \<Rightarrow> num" where
  "plus_num (Fin a) (Fin b) = Fin (a + b)"
| "plus_num NaN _ = NaN"
| "plus_num _ NaN = NaN"
| "plus_num PInf NInf = NaN"
| "plus_num NInf PInf = NaN"
| "plus_num PInf _ = PInf"
| "plus_num _ PInf = PInf"
| "plus_num NInf _ = NInf"
| "plus_num _ NInf = NInf"

definition minus_num :: "num \<Rightarrow> num \<Rightarrow> num" where
  "minus_num a b = a + (- b)"

fun times_num :: "num \<Rightarrow> num \<Rightarrow> num" where
  "times_num (Fin a) (Fin b) = Fin (a * b)"
| "times_num NaN _ = NaN"
| "times_num _ NaN = NaN"
| "times_num PInf (Fin b) = (if 0 < b then PInf else if b < 0 then NInf else NaN)"
| "times_num NInf (Fin b) = (if 0 < b then NInf else if b < 0 then PInf else NaN)"
| "times_num (Fin a) PInf = (if 0 < a then PInf else if a < 0 then NInf else NaN)"
| "times_num (Fin a) NInf = (if 0 < a then NInf else if a < 0 then PInf else NaN)"
| "times_num PInf PInf = PInf"
| "times_num PInf NInf = NInf"
| "times_num NInf PInf = NInf"
| "times_num NInf NInf = PInf"

fun divide_num :: "num \<Rightarrow> num \<Rightarrow> num" where
  "divide_num (Fin a) (Fin b) =
     (if b \<noteq> 0 then Fin (a / b)
      else if 0 < a then PInf else if a < 0 then NInf else NaN)"
| "divide_num NaN _ = NaN"
| "divide_num _ NaN = NaN"
| "divide_num (Fin a) PInf = Fin 0"
| "divide_num (Fin a) NInf = Fin 0"
| "divide_num PInf (Fin b) = (if 0 \<le> b then PInf else NInf)"
| "divide_num NInf (Fin b) = (if 0 \<le> b then NInf else PInf)"
| "divide_num PInf PInf = NaN"
| "divide_num PInf NInf = NaN"
| "divide_num NInf PInf = NaN"
| "divide_num NInf NInf = NaN"

definition inverse_num :: "num \<Rightarrow> num" where
  "inverse_num a = divide (Fin 1) a"

fun abs_num :: "num \<Rightarrow> num" where
  "abs_num (Fin a) = Fin \<bar>a\<bar>"
| "abs_num PInf = PInf"
| "abs_num NInf = PInf"
| "abs_num NaN = NaN"

fun less_num :: "num \<Rightarrow> num \<Rightarrow> bool" where
  "less_num (Fin a) (Fin b) = (a < b)"
| "less_num NaN _ = False"
| "less_num _ NaN = False"
| "less_num _ NInf = False"
| "less_num PInf _ = False"
| "less_num NInf _ = True"
| "less_num _ PInf = True"

definition less_eq_num :: "num \<Rightarrow> num \<Rightarrow> bool" where
  "less_eq_num a b = (a < b \<or> (a = b \<and> a \<noteq> NaN))"

instance ..

end

text \<open>\<open>a === b\<close> on numbers: \<open>NaN\<close> equals nothing.\<close>

definition strict_eq :: "num \<Rightarrow> num \<Rightarrow> bool" where
  "strict_eq a b = (a = b \<and> a \<noteq> NaN)"

text \<open>\<open>a || b\<close> on numbers: \<open>0\<close> and \<open>NaN\<close> are falsy.\<close>

definition js_or :: "num \<Rightarrow> num \<Rightarrow> num" where
  "js_or a b = (if a = Fin 0 \<or> a = NaN then b else a)"

fun isFinite :: "num \<Rightarrow> bool" where
  "isFinite (Fin a) = True"
| "isFinite PInf = False"
| "isFinite NInf = False"
| "isFinite NaN = False"

text \<open>\<open>Math.max\<close> and \<open>Math.min\<close> of two numbers return \<open>NaN\<close> when either is \<open>NaN\<close>.\<close>

definition Math_max :: "num \<Rightarrow> num \<Rightarrow> num" where
  "Math_max a b = (if a = NaN \<or> b = NaN then NaN else if a < b then b else a)"

definition Math_min :: "num \<Rightarrow> num \<Rightarrow> num" where
  "Math_min a b = (if a = NaN \<or> b = NaN then NaN else if b < a then b else a)"

fun Math_floor :: "num \<Rightarrow> num" where
  "Math_floor (Fin a) = Fin (of_int \<lfloor>a\<rfloor>)"
| "Math_floor PInf = PInf"
| "Math_floor NInf = NInf"
| "Math_floor NaN = NaN"

fun Math_ceil :: "num \<Rightarrow> num" where
  "Math_ceil (Fin a) = Fin (of_int \<lceil>a\<rceil>)"
| "Math_ceil PInf = PInf"
| "Math_ceil NInf = NInf"
| "Math_ceil NaN = NaN"

fun Math_log10 :: "num \<Rightarrow> num" where
  "Math_log10 (Fin a) = (if 0 < a then Fin (log 10 a) else if a = 0 then NInf else NaN)"
| "Math_log10 PInf = PInf"
| "Math_log10 NInf = NaN"
| "Math_log10 NaN = NaN"

text \<open>\<open>Math.pow(10, e)\<close>, the only use of \<open>Math.pow\<close> in the program.\<close>

fun Math_pow10 :: "num \<Rightarrow> num" where
  "Math_pow10 (Fin e) = Fin (10 powr e)"
| "Math_pow10 PInf = PInf"
| "Math_pow10 NInf = Fin 0"
| "Math_pow10 NaN = NaN"

text \<open>
  \<open>+v.toFixed(12)\<close>: the decimal string of \<open>v\<close> with twelve fraction digits, read back as
  a number. \<open>toFixed\<close> rounds the magnitude to the nearest multiple of \<open>10\<^sup>-\<^sup>1\<^sup>2\<close>, the
  larger one on a tie (\<open>round12\<close>); from \<open>10\<^sup>2\<^sup>1\<close> on, and for a value that is not
  finite, it prints the number itself.
\<close>

definition round12 :: "real \<Rightarrow> real" where
  "round12 a =
     (if 10 ^ 21 \<le> \<bar>a\<bar> then a
      else sgn a * of_int \<lfloor>\<bar>a\<bar> * 10 ^ 12 + 1 / 2\<rfloor> / 10 ^ 12)"

fun toFixed12 :: "num \<Rightarrow> num" where
  "toFixed12 (Fin a) = Fin (round12 a)"
| "toFixed12 PInf = PInf"
| "toFixed12 NInf = NInf"
| "toFixed12 NaN = NaN"

definition clamp :: "num \<Rightarrow> num \<Rightarrow> num \<Rightarrow> num" where
  "clamp v a b = Math_max a (Math_min b v)"

text \<open>
  \<open>linspace(a, b, n)\<close>: \<open>Array.from({length: n}, (_, i) => a + i * step)\<close> with
  \<open>step = (b - a) / Math.max(1, n - 1)\<close>. The length is a natural number (the sample
  count the interface stores is an integer clamped to 100..4000).
\<close>

definition linspace :: "num \<Rightarrow> num \<Rightarrow> nat \<Rightarrow> num list" where
  "linspace a b n =
     (let step = (b - a) / Math_max (Fin 1) (Fin (real n - 1))
      in map (\<lambda>i. a + Fin (real i) * step) [0..<n])"

section \<open>Strings and expression normalisation\<close>

text \<open>A JavaScript string is a sequence of UTF-16 code units.\<close>

type_synonym jsstring = "16 word list"

definition str :: "string \<Rightarrow> jsstring" where
  "str s = map of_char s"

text \<open>White space as \<open>String.prototype.trim\<close> strips it, line terminators included.\<close>

definition isWhiteSpace :: "16 word \<Rightarrow> bool" where
  "isWhiteSpace c =
     (c \<in> {0x09, 0x0A, 0x0B, 0x0C, 0x0D, 0x20, 0xA0, 0x1680, 0x2028, 0x2029, 0x202F,
            0x205F, 0x3000, 0xFEFF}
      \<or> (0x2000 \<le> c \<and> c \<le> 0x200A))"

definition isLineTerminator :: "16 word \<Rightarrow> bool" where
  "isLineTerminator c = (c \<in> {0x0A, 0x0D, 0x2028, 0x2029})"

definition trim :: "jsstring \<Rightarrow> jsstring" where
  "trim s = rev (dropWhile isWhiteSpace (rev (dropWhile isWhiteSpace s)))"

fun str_includes :: "jsstring \<Rightarrow> jsstring \<Rightarrow> bool" where
  "str_includes [] p = (p = [])"
| "str_includes (c # s) p = (take (length p) (c # s) = p \<or> str_includes s p)"

text \<open>
  \<open>s.match(/^\|(.*)\|$/)\<close>: the first capture group when \<open>s\<close> is a bar, then any
  code units but line terminators, then a bar.
\<close>

definition match_bars :: "jsstring \<Rightarrow> jsstring option" where
  "match_bars s =
     (if 2 \<le> length s \<and> hd s = 0x7C \<and> last s = 0x7C
         \<and> list_all (\<lambda>c. \<not> isLineTerminator c) (butlast (tl s))
      then Some (butlast (tl s)) else None)"

definition normalizeExpr :: "jsstring \<Rightarrow> jsstring" where
  "normalizeExpr raw =
     (if raw = [] \<or> trim raw = [] then []
      else let s = trim raw in
        if str_includes s (str ''|'') \<and> \<not> str_includes s (str ''abs'') then
          (case match_bars s of
             Some m \<Rightarrow> str ''abs('' @ m @ str '')''
           | None \<Rightarrow> s)
        else s)"

section \<open>The expression compiler and the derivative provider\<close>

text \<open>
  The program imports its parser and evaluator (\<open>const math = create(all, {})\<close>); they
  are a parameter of the model. Each operation may throw, and evaluation runs in the
  JavaScript heap, which it may read and change: a computation takes the state and
  returns a thrown exception (\<open>Inl\<close>) or a value (\<open>Inr\<close>) with the new state.
\<close>

datatype exn = Exn string

datatype jsval = JNumber num | JBoolean bool | JString jsstring | JObject

record ('node, 'code, 's) mathjs =
  math_parse :: "jsstring \<Rightarrow> exn + 'node"
  math_derivative :: "jsstring \<Rightarrow> jsstring \<Rightarrow> exn + 'node"
  node_compile :: "'node \<Rightarrow> exn + 'code"
  code_evaluate :: "'code \<Rightarrow> num \<Rightarrow> 's \<Rightarrow> (exn + jsval) \<times> 's"

type_synonym 's callable = "num \<Rightarrow> 's \<Rightarrow> (exn + num) \<times> 's"

text \<open>\<open>try { body } catch { handler }\<close>.\<close>

definition try_catch ::
  "('s \<Rightarrow> (exn + 'a) \<times> 's) \<Rightarrow> ('s \<Rightarrow> (exn + 'a) \<times> 's) \<Rightarrow> 's \<Rightarrow> (exn + 'a) \<times> 's" where
  "try_catch body handler s =
     (case body s of
        (Inl e, s') \<Rightarrow> handler s'
      | (Inr v, s') \<Rightarrow> (Inr v, s'))"

text \<open>
  \<open>Number.isFinite(v) ? v : NaN\<close>: \<open>Number.isFinite\<close> is false of every value that is
  not a Number.
\<close>

fun finite_or_NaN :: "jsval \<Rightarrow> num" where
  "finite_or_NaN (JNumber n) = (if isFinite n then n else NaN)"
| "finite_or_NaN _ = NaN"

text \<open>The closure both compilers return around compiled code.\<close>

definition evaluator :: "('node, 'code, 's) mathjs \<Rightarrow> 'code \<Rightarrow> 's callable" where
  "evaluator M code x =
     try_catch
       (\<lambda>s. case code_evaluate M code x s of
               (Inl e, s') \<Rightarrow> (Inl e, s')
             | (Inr v, s') \<Rightarrow> (Inr (finite_or_NaN v), s'))
       (\<lambda>s. (Inr NaN, s))"

definition compileExpression ::
  "('node, 'code, 's) mathjs \<Rightarrow> jsstring \<Rightarrow> 's callable option" where
  "compileExpression M expr =
     (let src = normalizeExpr expr in
      if src = [] then None
      else case math_parse M src of
             Inl e \<Rightarrow> None
           | Inr node \<Rightarrow>
               (case node_compile M node of
                  Inl e \<Rightarrow> None
                | Inr code \<Rightarrow> Some (evaluator M code)))"

text \<open>The numeric fallback of \<open>compileDerivative\<close>.\<close>

definition numericDerivative :: "'s callable \<Rightarrow> 's callable" where
  "numericDerivative f x s =
     (let h = Fin (1 / 10 ^ 5) * Math_max (Fin 1) \<bar>x\<bar> in
      case f (x + h) s of
        (Inl e, s1) \<Rightarrow> (Inl e, s1)
      | (Inr y1, s1) \<Rightarrow>
          (case f (x - h) s1 of
             (Inl e, s2) \<Rightarrow> (Inl e, s2)
           | (Inr y2, s2) \<Rightarrow>
               (let d = (y1 - y2) / (Fin 2 * h)
                in (Inr (if isFinite d then d else NaN), s2))))"

text \<open>The \<open>try\<close> block of \<open>compileDerivative\<close>: \<open>math.derivative(src, "x").compile()\<close>.\<close>

definition symbolic :: "('node, 'code, 's) mathjs \<Rightarrow> jsstring \<Rightarrow> exn + 'code" where
  "symbolic M src =
     (case math_derivative M src (str ''x'') of
        Inl e \<Rightarrow> Inl e
      | Inr dnode \<Rightarrow> node_compile M dnode)"

definition compileDerivative ::
  "('node, 'code, 's) mathjs \<Rightarrow> jsstring \<Rightarrow> 's callable option" where
  "compileDerivative M expr =
     (let src = normalizeExpr expr in
      if src = [] then None
      else case symbolic M src of
             Inr dcode \<Rightarrow> Some (evaluator M dcode)
           | Inl e \<Rightarrow>
               (case compileExpression M src of
                  None \<Rightarrow> None
                | Some f \<Rightarrow> Some (numericDerivative f)))"

text \<open>
  The numeric fallback as the specification words it, for a function \<open>g\<close> from numbers
  to numbers: the central difference \<open>(g(x+h) - g(x-h)) / (2h)\<close> with
  \<open>h = 1e-5 * max(1, |x|)\<close>, and \<open>NaN\<close> for a result that is not finite.
\<close>

definition central_step :: "num \<Rightarrow> num" where
  "central_step x = Fin (1 / 10 ^ 5) * Math_max (Fin 1) \<bar>x\<bar>"

definition central_difference :: "num \<Rightarrow> num \<Rightarrow> num \<Rightarrow> num" where
  "central_difference y1 y2 h =
     (if isFinite ((y1 - y2) / (Fin 2 * h)) then (y1 - y2) / (Fin 2 * h) else NaN)"


text \<open>
  A small stand-in for the imported library, used to run the compilers on concrete
  expressions. It knows four expressions: \<open>x\<close>, \<open>1/x\<close>, the conditional \<open>x<0?-1:1\<close>
  (which, as in mathjs, has no symbolic derivative) and \<open>random()\<close>, which mathjs's
  full function set (\<open>create(all, {})\<close>) provides; the heap is the state of the
  generator, a counter here.
\<close>

definition demo_math :: "(jsstring, jsstring, nat) mathjs" where
  "demo_math =
     \<lparr> math_parse = (\<lambda>src.
         if src = str ''x'' \<or> src = str ''1/x'' \<or> src = str ''x<0?-1:1''
            \<or> src = str ''random()''
         then Inr src else Inl (Exn ''SyntaxError'')),
       math_derivative = (\<lambda>src v.
         if src = str ''x'' then Inr (str ''1'')
         else if src = str ''1/x'' then Inr (str ''-1/x^2'')
         else Inl (Exn ''TypeError'')),
       node_compile = (\<lambda>node. Inr node),
       code_evaluate = (\<lambda>code x s.
         if code = str ''x'' then (Inr (JNumber x), s)
         else if code = str ''1'' then (Inr (JNumber (Fin 1)), s)
         else if code = str ''1/x'' then (Inr (JNumber (Fin 1 / x)), s)
         else if code = str ''-1/x^2'' then (Inr (JNumber (Fin (- 1) / (x * x))), s)
         else if code = str ''x<0?-1:1''
           then (Inr (JNumber (if x < Fin 0 then Fin (- 1) else Fin 1)), s)
         else if code = str ''random()''
           then (Inr (JNumber (Fin (1 / (real s + 2)))), Suc s)
         else (Inl (Exn ''Error''), s)) \<rparr>"

section \<open>The coordinate mapper\<close>

definition worldToScreen ::
  "num \<Rightarrow> num \<Rightarrow> num \<Rightarrow> num \<Rightarrow> num \<Rightarrow> num \<Rightarrow> num \<Rightarrow> num \<Rightarrow> num \<times> num" where
  "worldToScreen x y W H xMin xMax yMin yMax =
     (let sx = ((x - xMin) / (xMax - xMin)) * W;
          sy = H - ((y - yMin) / (yMax - yMin)) * H
      in (sx, sy))"


text \<open>
  \<open>niceTicks(min, max, target = 8)\<close>. \<open>niceStep\<close> is the value of \<open>step\<close> when the loop
  starts. The loop may run forever (a step that is not positive), so it returns an
  option: \<open>None\<close> is a call that does not return.
\<close>

definition niceStep :: "num \<Rightarrow> num \<Rightarrow> num \<Rightarrow> num" where
  "niceStep mn mx target =
     (let span = js_or (mx - mn) (Fin 1);
          step0 = span / target;
          pow10 = Math_pow10 (Math_floor (Math_log10 step0));
          step = step0 / pow10;
          step = (if Fin 5 \<le> step then Fin 5 else if Fin 2 \<le> step then Fin 2 else Fin 1)
      in step * pow10)"

partial_function (option) ticks_loop :: "num \<Rightarrow> num \<Rightarrow> num \<Rightarrow> num list \<Rightarrow> num list option" where
  "ticks_loop v mx step ticks =
     (if v \<le> mx + Fin (1 / 10 ^ 12)
      then ticks_loop (v + step) mx step (ticks @ [toFixed12 v])
      else Some ticks)"

definition niceTicks :: "num \<Rightarrow> num \<Rightarrow> num \<Rightarrow> num list option" where
  "niceTicks mn mx target =
     (let step = niceStep mn mx target;
          start = Math_ceil (mn / step) * step
      in ticks_loop start mx step [])"

section \<open>The range estimator\<close>

text \<open>
  The estimator and the renderers call compiled functions, which return a number and
  never throw; they are modelled on the function from \<open>x\<close> to that number.
\<close>

definition range_scan :: "(num \<Rightarrow> num) \<Rightarrow> num list \<Rightarrow> num \<times> num" where
  "range_scan f xs =
     fold (\<lambda>x (ymin, ymax).
             let y = f x in
             if \<not> isFinite y then (ymin, ymax)
             else (Math_min ymin y, Math_max ymax y))
          xs (PInf, NInf)"

text \<open>
  The effect that computes \<open>yRange\<close>; \<open>None\<close> when \<open>f\<close> is \<open>null\<close> and the effect
  returns before \<open>setYRange\<close>.
\<close>

definition yRange_effect ::
  "(num \<Rightarrow> num) option \<Rightarrow> num \<Rightarrow> num \<Rightarrow> nat \<Rightarrow> (num \<times> num) option" where
  "yRange_effect f xMin xMax samples =
     (case f of
        None \<Rightarrow> None
      | Some f \<Rightarrow>
          (let xs = linspace xMin xMax (min samples 400);
               (ymin, ymax) = range_scan f xs;
               (ymin, ymax) =
                  (if \<not> isFinite ymin \<or> \<not> isFinite ymax then (Fin (- 1), Fin 1)
                   else (ymin, ymax));
               (ymin, ymax) =
                  (if strict_eq ymin ymax then (ymin - Fin 1, ymax + Fin 1)
                   else (ymin, ymax));
               pad = (ymax - ymin) * Fin (1 / 10) + Fin (1 / 10 ^ 9)
           in Some (ymin - pad, ymax + pad)))"

section \<open>The canvas\<close>

text \<open>
  The renderers draw through a 2D canvas context. The model records the calls in
  order; \<open>FillText\<close> keeps the three numbers the tangent's label prints (each with three
  decimals) in place of the label's text.
\<close>

datatype cmd =
    Save | Restore | Translate num num
  | SetLineWidth num | SetStrokeStyle string | SetFillStyle string | SetLineDash "num list"
  | SetFont string | SetTextAlign string | SetTextBaseline string
  | BeginPath | MoveTo num num | LineTo num num | Arc num num num num num
  | Stroke | Fill | FillText "num list" num num

type_synonym point = "num \<times> num"

text \<open>
  What a sequence of calls strokes, for the calls the curve renderers make: \<open>beginPath\<close>
  empties the current path, \<open>moveTo\<close> starts a new subpath, \<open>lineTo\<close> extends the last
  subpath (or starts one when there is none), \<open>stroke\<close> draws every subpath of the
  current path. The state is the current path and the polylines stroked so far.
\<close>

fun paint :: "cmd \<Rightarrow> point list list \<times> point list list \<Rightarrow> point list list \<times> point list list" where
  "paint BeginPath (path, out) = ([], out)"
| "paint (MoveTo x y) (path, out) = (path @ [[(x, y)]], out)"
| "paint (LineTo x y) (path, out) =
     (if path = [] then [[(x, y)]] else butlast path @ [last path @ [(x, y)]], out)"
| "paint Stroke (path, out) = (path, out @ path)"
| "paint _ (path, out) = (path, out)"


text \<open>The calls \<open>moveTo\<close> and \<open>lineTo\<close> on a point.\<close>

definition moveTo :: "point \<Rightarrow> cmd" where
  "moveTo p = MoveTo (fst p) (snd p)"

definition lineTo :: "point \<Rightarrow> cmd" where
  "lineTo p = LineTo (fst p) (snd p)"

fun is_Arc :: "cmd \<Rightarrow> bool" where
  "is_Arc (Arc x y r a0 a1) = True"
| "is_Arc _ = False"

section \<open>The curve renderers\<close>








definition abs_fn :: "num \<Rightarrow> num" where
  "abs_fn x = (if isFinite \<bar>x\<bar> then \<bar>x\<bar> else NaN)"

section \<open>The derivative renderer and the tangent\<close>

definition CONT_ABS :: num where
  "CONT_ABS = Fin (6 / 10)"

definition CONT_REL :: num where
  "CONT_REL = Fin (35 / 100)"

definition SLOPE_ABS :: num where
  "SLOPE_ABS = Fin (6 / 10)"

definition SLOPE_REL :: num where
  "SLOPE_REL = Fin (35 / 100)"

text \<open>\<open>drawHole(yy)\<close> at the sample \<open>x\<close>; \<open>d0\<close> and \<open>d1\<close> are \<open>dRange[0]\<close> and \<open>dRange[1]\<close>.\<close>

definition drawHole :: "num \<Rightarrow> num \<Rightarrow> num \<Rightarrow> num \<Rightarrow> num \<Rightarrow> num \<Rightarrow> num \<Rightarrow> num \<Rightarrow> cmd list" where
  "drawHole W panelH xMin xMax d0 d1 x yy =
     (if \<not> isFinite yy then []
      else
        let (hx, hy) = worldToScreen x yy W panelH xMin xMax d0 d1
        in [SetFillStyle ''#fff'',
            BeginPath, Arc hx hy (Fin 3) (Fin 0) (Fin (pi * 2)), Fill,
            SetStrokeStyle ''#ef4444'',
            BeginPath, Arc hx hy (Fin 3) (Fin 0) (Fin (pi * 2)), Stroke,
            SetStrokeStyle ''#10b981''])"

text \<open>
  The body of the loop of \<open>drawDerivativeWithHoles\<close>; \<open>H\<close> is the grid step. Its
  variables \<open>jumpHere\<close>, \<open>left\<close>, \<open>right\<close> and \<open>cornerHere\<close> are definitions of their
  own.
\<close>

definition jumpHere :: "(num \<Rightarrow> num) \<Rightarrow> num \<Rightarrow> num \<Rightarrow> bool" where
  "jumpHere f x h =
     (let ym = f (x - h);
          yp = f (x + h);
          contAbs = \<bar>yp - ym\<bar>;
          contRel = contAbs / Math_max (Fin (1 / 10 ^ 9)) (Math_max \<bar>yp\<bar> \<bar>ym\<bar>)
      in \<not> (isFinite ym \<and> isFinite yp) \<or> (CONT_ABS < contAbs \<and> CONT_REL < contRel))"

definition slope_left :: "(num \<Rightarrow> num) \<Rightarrow> num \<Rightarrow> num \<Rightarrow> num" where
  "slope_left f x h = (f x - f (x - h)) / h"

definition slope_right :: "(num \<Rightarrow> num) \<Rightarrow> num \<Rightarrow> num \<Rightarrow> num" where
  "slope_right f x h = (f (x + h) - f x) / h"

definition cornerHere :: "num \<Rightarrow> num \<Rightarrow> bool" where
  "cornerHere left right =
     (let slopeAbs = \<bar>left - right\<bar>;
          slopeRel = slopeAbs / Math_max (Fin (1 / 10 ^ 9)) (Math_max \<bar>left\<bar> \<bar>right\<bar>)
      in SLOPE_ABS < slopeAbs \<and> SLOPE_REL < slopeRel)"

definition holes_body ::
  "num \<Rightarrow> num \<Rightarrow> (num \<Rightarrow> num) \<Rightarrow> (num \<Rightarrow> num) \<Rightarrow> num \<Rightarrow> num \<Rightarrow> num \<Rightarrow> num \<Rightarrow> num \<Rightarrow> num
     \<Rightarrow> bool \<times> cmd list \<Rightarrow> bool \<times> cmd list" where
  "holes_body W panelH f df xMin xMax d0 d1 H x = (\<lambda>(started, ctx).
     let h = Math_max (Fin (1 / 10 ^ 6)) (Fin (1 / 2) * H);
         y = df x
     in
     if \<not> isFinite y \<or> jumpHere f x h then (False, ctx)
     else
       let (sx, sy) = worldToScreen x y W panelH xMin xMax d0 d1;
           left = slope_left f x h;
           right = slope_right f x h;
           ctx = (if \<not> started then ctx @ [MoveTo sx sy] else ctx @ [LineTo sx sy])
       in
       if cornerHere left right
       then (False,
             ctx @ drawHole W panelH xMin xMax d0 d1 x left
                 @ drawHole W panelH xMin xMax d0 d1 x right
                 @ [Stroke, BeginPath])
       else (True, ctx))"

text \<open>
  \<open>drawDerivativeWithHoles\<close>; \<open>df\<close> is \<open>None\<close> when the derivative is \<open>null\<close>. The loop
  visits \<open>xs[1]\<close> to \<open>xs[xs.length - 2]\<close>.
\<close>

definition drawDerivativeWithHoles ::
  "num \<Rightarrow> num \<Rightarrow> (num \<Rightarrow> num) \<Rightarrow> (num \<Rightarrow> num) option \<Rightarrow> bool \<Rightarrow> num \<Rightarrow> num \<Rightarrow> nat
     \<Rightarrow> num \<Rightarrow> num \<Rightarrow> cmd list" where
  "drawDerivativeWithHoles W panelH f df showDerivative xMin xMax samples d0 d1 =
     (case df of
        None \<Rightarrow> []
      | Some df \<Rightarrow>
          if \<not> showDerivative then []
          else
            let xs = linspace xMin xMax (min samples 500);
                H = (xMax - xMin) / Fin (real (length xs) - 1);
                ctx = [Save, Translate (Fin 0) (panelH + Fin 12), SetLineWidth (Fin 2),
                       SetStrokeStyle ''#10b981'', BeginPath];
                (started, ctx) =
                   fold (holes_body W panelH f df xMin xMax d0 d1 H)
                        (map (\<lambda>i. xs ! i) [1..<length xs - 1]) (False, ctx)
            in ctx @ [Stroke, Restore])"

text \<open>
  \<open>drawTangentAt\<close> of the same component. \<open>xLocked\<close> is the number \<open>evalScalar(tangentX)\<close>
  returns (\<open>NaN\<close> when the text does not evaluate), \<open>hoverX\<close> is \<open>None\<close> for \<open>null\<close>, and
  \<open>y0\<close>, \<open>y1\<close> are \<open>yRange[0]\<close> and \<open>yRange[1]\<close>.
\<close>

definition drawTangentAt ::
  "num \<Rightarrow> num \<Rightarrow> (num \<Rightarrow> num) \<Rightarrow> (num \<Rightarrow> num) option \<Rightarrow> bool \<Rightarrow> bool \<Rightarrow> num \<Rightarrow> num option
     \<Rightarrow> num \<Rightarrow> num \<Rightarrow> num \<Rightarrow> num \<Rightarrow> cmd list" where
  "drawTangentAt W panelH f df showTangent lockTangent xLocked hoverX xMin xMax y0 y1 =
     (case df of
        None \<Rightarrow> []
      | Some df \<Rightarrow>
          if \<not> showTangent then []
          else
            (case (if lockTangent then Some xLocked else hoverX) of
               None \<Rightarrow> []
             | Some xCandidate \<Rightarrow>
                 if xCandidate = NaN then []
                 else
                   let x = clamp xCandidate xMin xMax;
                       y = f x;
                       m = df x
                   in
                   if \<not> isFinite y \<or> \<not> isFinite m then []
                   else
                     let xA = xMin; xB = xMax;
                         yA = m * (xA - x) + y;
                         yB = m * (xB - x) + y;
                         (sx, sy') = worldToScreen x (Fin 0) W panelH xMin xMax y0 y1;
                         (sAx, sAy) = worldToScreen xA yA W panelH xMin xMax y0 y1;
                         (sBx, sBy) = worldToScreen xB yB W panelH xMin xMax y0 y1;
                         (sx0, sy) = worldToScreen x y W panelH xMin xMax y0 y1
                     in [SetStrokeStyle ''#c7d2fe'', SetLineWidth (Fin 1),
                         SetLineDash [Fin 4, Fin 4],
                         BeginPath, MoveTo sx (Fin 0), LineTo sx panelH, Stroke,
                         SetLineDash [],
                         SetStrokeStyle ''#7c3aed'', SetLineWidth (Fin 2),
                         BeginPath, MoveTo sAx sAy, LineTo sBx sBy, Stroke,
                         SetFillStyle ''#7c3aed'',
                         BeginPath, Arc sx0 sy (Fin 3) (Fin 0) (Fin (pi * 2)), Fill,
                         SetFillStyle ''#1f2937'', SetFont ''12px system-ui'',
                         SetTextAlign ''left'', SetTextBaseline ''bottom'',
                         FillText [x, y, m]
                           (Math_min (Math_max (Fin 6) (sx0 + Fin 6)) (W - Fin 180))
                           (Math_max (Fin 14) (sy - Fin 6))]))"

section \<open>Arithmetic on finite numbers\<close>

lemma minus_Fin [simp]: "Fin a - Fin b = Fin (a - b)"
  by (simp add: minus_num_def)

lemma le_Fin [simp]: "(Fin a \<le> Fin b) = (a \<le> b)"
  by (auto simp: less_eq_num_def)

lemma Math_max_Fin [simp]: "Math_max (Fin a) (Fin b) = Fin (max a b)"
  by (simp add: Math_max_def max_def)

lemma Math_min_Fin [simp]: "Math_min (Fin a) (Fin b) = Fin (min a b)"
  by (simp add: Math_min_def min_def)

lemma strict_eq_Fin [simp]: "strict_eq (Fin a) (Fin b) = (a = b)"
  by (simp add: strict_eq_def)

section \<open>Properties of the expression compiler\<close>

lemmas str_eval = str_def normalizeExpr_def trim_def isWhiteSpace_def match_bars_def
  isLineTerminator_def

lemma evaluator_result:
  "\<exists>v s'. evaluator M code x s = (Inr v, s') \<and> (isFinite v \<or> v = NaN)"
proof (cases "code_evaluate M code x s")
  case (Pair r s')
  show ?thesis
  proof (cases r)
    case (Inl e)
    with Pair show ?thesis by (simp add: evaluator_def try_catch_def)
  next
    case (Inr v)
    with Pair show ?thesis
      by (cases v) (simp_all add: evaluator_def try_catch_def)
  qed
qed

lemma compileExpression_Some:
  assumes "compileExpression M expr = Some f"
  shows "\<exists>node code. normalizeExpr expr \<noteq> [] \<and> math_parse M (normalizeExpr expr) = Inr node
           \<and> node_compile M node = Inr code \<and> f = evaluator M code"
proof (cases "math_parse M (normalizeExpr expr)")
  case (Inl e)
  with assms show ?thesis by (simp add: compileExpression_def Let_def split: if_splits)
next
  case (Inr node)
  show ?thesis
  proof (cases "node_compile M node")
    case (Inl e)
    with Inr assms show ?thesis by (simp add: compileExpression_def Let_def split: if_splits)
  next
    case c: (Inr code)
    with Inr assms show ?thesis
      by (cases "normalizeExpr expr = []") (auto simp: compileExpression_def Let_def)
  qed
qed

subsection \<open>The stand-in library on its expressions\<close>

lemma demo_parse:
  "math_parse demo_math src =
     (if src = str ''x'' \<or> src = str ''1/x'' \<or> src = str ''x<0?-1:1''
         \<or> src = str ''random()''
      then Inr src else Inl (Exn ''SyntaxError''))"
  by (simp add: demo_math_def)

lemma demo_derivative:
  "math_derivative demo_math src v =
     (if src = str ''x'' then Inr (str ''1'')
      else if src = str ''1/x'' then Inr (str ''-1/x^2'')
      else Inl (Exn ''TypeError''))"
  by (simp add: demo_math_def)

lemma demo_compile: "node_compile demo_math node = Inr node"
  by (simp add: demo_math_def)

lemma demo_evaluate:
  "code_evaluate demo_math code x s =
     (if code = str ''x'' then (Inr (JNumber x), s)
      else if code = str ''1'' then (Inr (JNumber (Fin 1)), s)
      else if code = str ''1/x'' then (Inr (JNumber (Fin 1 / x)), s)
      else if code = str ''-1/x^2'' then (Inr (JNumber (Fin (- 1) / (x * x))), s)
      else if code = str ''x<0?-1:1''
        then (Inr (JNumber (if x < Fin 0 then Fin (- 1) else Fin 1)), s)
      else if code = str ''random()''
        then (Inr (JNumber (Fin (1 / (real s + 2)))), Suc s)
      else (Inl (Exn ''Error''), s))"
  by (simp add: demo_math_def)

lemmas demo_simps = demo_parse demo_derivative demo_compile demo_evaluate

lemma demo_compile_inv:
  "compileExpression demo_math (str ''1/x'') = Some (evaluator demo_math (str ''1/x''))"
  by (simp add: compileExpression_def demo_simps str_eval)

subsection \<open>The compiled function never throws\<close>

lemma evaluator_cases:
  assumes "code_evaluate M code x s = (r, s')"
  shows "evaluator M code x s =
           (Inr (case r of Inl e \<Rightarrow> NaN | Inr w \<Rightarrow> finite_or_NaN w), s')"
  using assms by (cases r) (simp_all add: evaluator_def try_catch_def)

text \<open>
  C1. For every expression that \<open>compileExpression\<close> accepts, the returned function is
  the closure around the compiled code of the parsed expression, and for every argument
  \<open>x\<close> (finite or not), in every heap, a call evaluates that code once in the scope
  \<open>{x}\<close> and returns a value \<open>v\<close>; it does not throw. The value is a finite number or
  \<open>NaN\<close>: it is \<open>NaN\<close> when the evaluation throws, it is the result when the result is a
  finite number, and it is \<open>NaN\<close> when the result is a number that is not finite
  (\<open>Infinity\<close>, \<open>-Infinity\<close>, \<open>NaN\<close>) or a value that is not a Number.
\<close>

theorem compileExpression_never_throws:
  assumes "compileExpression M expr = Some f"
  shows "\<exists>node code. math_parse M (normalizeExpr expr) = Inr node
           \<and> node_compile M node = Inr code
           \<and> (\<forall>x s. \<exists>r s' v. code_evaluate M code x s = (r, s') \<and> f x s = (Inr v, s')
                 \<and> (isFinite v \<or> v = NaN)
                 \<and> (\<forall>e. r = Inl e \<longrightarrow> v = NaN)
                 \<and> (\<forall>n. r = Inr (JNumber n) \<longrightarrow> v = (if isFinite n then n else NaN))
                 \<and> (\<forall>w. r = Inr w \<longrightarrow> (\<forall>n. w \<noteq> JNumber n) \<longrightarrow> v = NaN))"
proof -
  from compileExpression_Some [OF assms] obtain node code
    where p: "math_parse M (normalizeExpr expr) = Inr node"
      and c: "node_compile M node = Inr code" and f: "f = evaluator M code"
    by (elim exE conjE)
  have "\<exists>r s' v. code_evaluate M code x s = (r, s') \<and> f x s = (Inr v, s')
                 \<and> (isFinite v \<or> v = NaN)
                 \<and> (\<forall>e. r = Inl e \<longrightarrow> v = NaN)
                 \<and> (\<forall>n. r = Inr (JNumber n) \<longrightarrow> v = (if isFinite n then n else NaN))
                 \<and> (\<forall>w. r = Inr w \<longrightarrow> (\<forall>n. w \<noteq> JNumber n) \<longrightarrow> v = NaN)" for x s
  proof (cases "code_evaluate M code x s")
    case (Pair r s')
    define v where "v = (case r of Inl e \<Rightarrow> NaN | Inr w \<Rightarrow> finite_or_NaN w)"
    from evaluator_cases [OF Pair] have fx: "f x s = (Inr v, s')"
      by (simp add: f v_def)
    have range: "isFinite v \<or> v = NaN"
    proof (cases r)
      case (Inl e)
      then show ?thesis by (simp add: v_def)
    next
      case (Inr w)
      then show ?thesis by (cases w) (simp_all add: v_def)
    qed
    have thrown: "\<forall>e. r = Inl e \<longrightarrow> v = NaN" by (simp add: v_def)
    have number: "\<forall>n. r = Inr (JNumber n) \<longrightarrow> v = (if isFinite n then n else NaN)"
      by (simp add: v_def)
    have other: "\<forall>w. r = Inr w \<longrightarrow> (\<forall>n. w \<noteq> JNumber n) \<longrightarrow> v = NaN"
    proof (intro allI impI)
      fix w assume "r = Inr w" "\<forall>n. w \<noteq> JNumber n"
      then show "v = NaN" by (cases w) (simp_all add: v_def)
    qed
    from Pair fx range thrown number other show ?thesis by blast
  qed
  with p c show ?thesis by blast
qed

text \<open>
  The expression \<open>1/x\<close>: at \<open>0\<close> the evaluation gives \<open>Infinity\<close> and the function \<open>NaN\<close>;
  at \<open>4\<close> the function gives \<open>0.25\<close>.
\<close>

theorem compileExpression_never_throws_witness:
  "compileExpression demo_math (str ''1/x'') = Some (evaluator demo_math (str ''1/x''))
   \<and> code_evaluate demo_math (str ''1/x'') (Fin 0) 0 = (Inr (JNumber PInf), 0)
   \<and> evaluator demo_math (str ''1/x'') (Fin 0) 0 = (Inr NaN, 0)
   \<and> evaluator demo_math (str ''1/x'') (Fin 4) 0 = (Inr (Fin (1 / 4)), 0)"
proof -
  have a: "code_evaluate demo_math (str ''1/x'') (Fin 0) 0 = (Inr (JNumber PInf), 0)"
    by (simp add: demo_simps str_def)
  have b: "evaluator demo_math (str ''1/x'') (Fin 0) 0 = (Inr NaN, 0)"
    by (simp add: evaluator_def try_catch_def demo_simps str_def)
  have c: "evaluator demo_math (str ''1/x'') (Fin 4) 0 = (Inr (Fin (1 / 4)), 0)"
    by (simp add: evaluator_def try_catch_def demo_simps str_def)
  from demo_compile_inv a b c compileExpression_never_throws [OF demo_compile_inv]
  show ?thesis by simp
qed

subsection \<open>Determinism\<close>





subsection \<open>Normalisation is idempotent\<close>

lemma trim_fixed:
  assumes "s \<noteq> []" "\<not> isWhiteSpace (hd s)" "\<not> isWhiteSpace (last s)"
  shows "trim s = s"
proof -
  from assms have a: "dropWhile isWhiteSpace s = s"
    by (simp add: dropWhile_eq_self_iff)
  from assms have "rev s \<noteq> []" "\<not> isWhiteSpace (hd (rev s))"
    by (simp_all add: hd_rev)
  then have b: "dropWhile isWhiteSpace (rev s) = rev s"
    by (simp add: dropWhile_eq_self_iff)
  show ?thesis by (simp add: trim_def a b)
qed

lemma hd_trim: "trim s \<noteq> [] \<Longrightarrow> \<not> isWhiteSpace (hd (trim s))"
  unfolding trim_def
  by (metis (no_types, lifting) Nil_is_rev_conv dropWhile.simps(1)
    dropWhile_last hd_dropWhile hd_rev last_in_set last_rev)

lemma last_trim: "trim s \<noteq> [] \<Longrightarrow> \<not> isWhiteSpace (last (trim s))"
proof -
  assume "trim s \<noteq> []"
  then have n: "dropWhile isWhiteSpace (rev (dropWhile isWhiteSpace s)) \<noteq> []"
    by (simp add: trim_def)
  have "last (trim s) = hd (dropWhile isWhiteSpace (rev (dropWhile isWhiteSpace s)))"
    by (simp add: trim_def last_rev)
  with hd_dropWhile [OF n] show ?thesis by simp
qed

lemma trim_idem: "trim (trim s) = trim s"
proof (cases "trim s = []")
  case True
  have "trim [] = []" by (simp add: trim_def)
  with True show ?thesis by simp
next
  case False
  then show ?thesis by (intro trim_fixed hd_trim last_trim)
qed

lemma normalizeExpr_idem: "normalizeExpr (normalizeExpr raw) = normalizeExpr raw"
proof (cases "raw = [] \<or> trim raw = []")
  case True
  then show ?thesis by (auto simp: normalizeExpr_def trim_def)
next
  case False
  define s where "s = trim raw"
  from False have s: "s \<noteq> []" "trim s = s" by (simp_all add: s_def trim_idem)
  show ?thesis
  proof (cases "str_includes s (str ''|'') \<and> \<not> str_includes s (str ''abs'')")
    case no: False
    with False have "normalizeExpr raw = s"
      by (auto simp: normalizeExpr_def s_def Let_def)
    moreover from no s have "normalizeExpr s = s"
      by (auto simp: normalizeExpr_def Let_def)
    ultimately show ?thesis by simp
  next
    case yes: True
    show ?thesis
    proof (cases "match_bars s")
      case None
      with yes False have "normalizeExpr raw = s"
        by (auto simp: normalizeExpr_def s_def Let_def)
      moreover from None yes s have "normalizeExpr s = s"
        by (auto simp: normalizeExpr_def Let_def)
      ultimately show ?thesis by simp
    next
      case (Some m)
      define r where "r = str ''abs('' @ m @ str '')''"
      from Some yes False have "normalizeExpr raw = r"
        by (auto simp: normalizeExpr_def s_def r_def Let_def)
      moreover have "trim r = r"
        by (rule trim_fixed) (simp_all add: r_def str_def isWhiteSpace_def)
      moreover have "str_includes r (str ''abs'')"
        by (simp add: r_def str_def)
      moreover have "r \<noteq> []" by (simp add: r_def str_def)
      ultimately show ?thesis by (simp add: normalizeExpr_def Let_def)
    qed
  qed
qed

lemma compileExpression_normalized:
  "compileExpression M (normalizeExpr expr) = compileExpression M expr"
  by (simp add: compileExpression_def normalizeExpr_idem)

subsection \<open>The numeric fallback of the derivative\<close>

lemma compileDerivative_fallback:
  assumes "symbolic M (normalizeExpr expr) = Inl e"
  shows "compileDerivative M expr = map_option numericDerivative (compileExpression M expr)"
proof (cases "normalizeExpr expr = []")
  case True
  then show ?thesis by (simp add: compileDerivative_def compileExpression_def)
next
  case False
  with assms have "compileDerivative M expr
      = map_option numericDerivative (compileExpression M (normalizeExpr expr))"
    by (simp add: compileDerivative_def Let_def split: option.splits)
  then show ?thesis by (simp add: compileExpression_normalized)
qed

lemma numericDerivative_evaluator:
  "\<exists>y1 s1 y2 s2.
      evaluator M code (x + central_step x) s = (Inr y1, s1) \<and>
      evaluator M code (x - central_step x) s1 = (Inr y2, s2) \<and>
      numericDerivative (evaluator M code) x s
        = (Inr (central_difference y1 y2 (central_step x)), s2)"
proof -
  from evaluator_result [of M code "x + central_step x" s] obtain y1 s1
    where 1: "evaluator M code (x + central_step x) s = (Inr y1, s1)" by blast
  from evaluator_result [of M code "x - central_step x" s1] obtain y2 s2
    where 2: "evaluator M code (x - central_step x) s1 = (Inr y2, s2)" by blast
  have "numericDerivative (evaluator M code) x s
        = (Inr (central_difference y1 y2 (central_step x)), s2)"
    using 1 2
    by (simp add: numericDerivative_def central_difference_def central_step_def Let_def)
  with 1 2 show ?thesis by blast
qed

text \<open>
  C4. When the symbolic attempt throws (\<open>math.derivative\<close> or the compilation of its
  result), \<open>compileDerivative\<close> returns \<open>null\<close> if the expression itself does not
  compile, and otherwise, with \<open>f\<close> the compiled expression, the function that calls \<open>f\<close>
  at \<open>x + h\<close> and then at \<open>x - h\<close>, \<open>h = 1e-5 * max(1, |x|)\<close>, and returns
  \<open>(f(x+h) - f(x-h)) / (2h)\<close>, or \<open>NaN\<close> when that is not finite.
\<close>

theorem numeric_fallback:
  assumes "symbolic M (normalizeExpr expr) = Inl e"
  shows "(compileExpression M expr = None \<longrightarrow> compileDerivative M expr = None) \<and>
         (\<forall>f. compileExpression M expr = Some f \<longrightarrow>
            (\<exists>df. compileDerivative M expr = Some df \<and>
               (\<forall>x s. \<exists>y1 s1 y2 s2.
                    f (x + central_step x) s = (Inr y1, s1) \<and>
                    f (x - central_step x) s1 = (Inr y2, s2) \<and>
                    df x s = (Inr (central_difference y1 y2 (central_step x)), s2))))"
proof (intro conjI allI impI)
  assume "compileExpression M expr = None"
  then show "compileDerivative M expr = None"
    by (simp add: compileDerivative_fallback [OF assms])
next
  fix f
  assume c: "compileExpression M expr = Some f"
  from compileExpression_Some [OF c] obtain node code
    where "normalizeExpr expr \<noteq> []" "math_parse M (normalizeExpr expr) = Inr node"
      "node_compile M node = Inr code" and f: "f = evaluator M code"
    by (elim exE conjE)
  have "compileDerivative M expr = Some (numericDerivative f)"
    by (simp add: compileDerivative_fallback [OF assms] c)
  moreover have "\<forall>x s. \<exists>y1 s1 y2 s2.
                    f (x + central_step x) s = (Inr y1, s1) \<and>
                    f (x - central_step x) s1 = (Inr y2, s2) \<and>
                    numericDerivative f x s
                      = (Inr (central_difference y1 y2 (central_step x)), s2)"
    unfolding f by (intro allI numericDerivative_evaluator)
  ultimately show "\<exists>df. compileDerivative M expr = Some df \<and>
               (\<forall>x s. \<exists>y1 s1 y2 s2.
                    f (x + central_step x) s = (Inr y1, s1) \<and>
                    f (x - central_step x) s1 = (Inr y2, s2) \<and>
                    df x s = (Inr (central_difference y1 y2 (central_step x)), s2))"
    by blast
qed

text \<open>
  The conditional \<open>x<0?-1:1\<close> has no symbolic derivative; at \<open>0\<close> its central difference
  is \<open>(1 - (-1)) / (2 * 1e-5)\<close>.
\<close>

lemma demo_compile_cond:
  "compileExpression demo_math (str ''x<0?-1:1'')
     = Some (evaluator demo_math (str ''x<0?-1:1''))"
  by (simp add: compileExpression_def demo_simps str_eval)

lemma demo_symbolic_cond:
  "symbolic demo_math (normalizeExpr (str ''x<0?-1:1'')) = Inl (Exn ''TypeError'')"
  by (simp add: symbolic_def demo_simps str_eval)

theorem numeric_fallback_witness:
  "symbolic demo_math (normalizeExpr (str ''x<0?-1:1'')) = Inl (Exn ''TypeError'')
   \<and> compileExpression demo_math (str ''x<0?-1:1'')
       = Some (evaluator demo_math (str ''x<0?-1:1''))
   \<and> (\<exists>df. compileDerivative demo_math (str ''x<0?-1:1'') = Some df
          \<and> df (Fin 0) 0 = (Inr (Fin 100000), 0))"
proof -
  let ?f = "evaluator demo_math (str ''x<0?-1:1'')"
  from numeric_fallback [OF demo_symbolic_cond] demo_compile_cond
  obtain df where d: "compileDerivative demo_math (str ''x<0?-1:1'') = Some df"
    and v: "\<forall>x s. \<exists>y1 s1 y2 s2.
                    ?f (x + central_step x) s = (Inr y1, s1) \<and>
                    ?f (x - central_step x) s1 = (Inr y2, s2) \<and>
                    df x s = (Inr (central_difference y1 y2 (central_step x)), s2)"
    by blast
  have h: "central_step (Fin 0) = Fin (1 / 100000)"
    by (simp add: central_step_def)
  have 1: "?f (Fin 0 + Fin (1 / 100000)) s = (Inr (Fin 1), s)" for s
    by (simp add: evaluator_def try_catch_def demo_simps str_def)
  have 2: "?f (Fin 0 - Fin (1 / 100000)) s = (Inr (Fin (- 1)), s)" for s
    by (simp add: evaluator_def try_catch_def demo_simps str_def)
  have 3: "central_difference (Fin 1) (Fin (- 1)) (Fin (1 / 100000)) = Fin 100000"
    by (simp add: central_difference_def)
  from v [rule_format, of "Fin 0" 0] have "df (Fin 0) 0 = (Inr (Fin 100000), 0)"
    unfolding h 1 2 using 3 by auto
  with d demo_symbolic_cond demo_compile_cond show ?thesis by blast
qed

section \<open>Properties of the coordinate mapper\<close>



section \<open>Properties of the range estimator\<close>

lemma range_scan_step:
  "fold (\<lambda>x (ymin, ymax).
             let y = f x in
             if \<not> isFinite y then (ymin, ymax)
             else (Math_min ymin y, Math_max ymax y)) xs acc = acc"
  if "\<forall>x\<in>set xs. \<not> isFinite (f x)"
  using that by (induction xs arbitrary: acc) (auto simp: Let_def)

lemma range_scan_no_finite:
  assumes "\<forall>x\<in>set xs. \<not> isFinite (f x)"
  shows "range_scan f xs = (PInf, NInf)"
  unfolding range_scan_def by (rule range_scan_step [OF assms])

lemma yRange_padded:
  assumes "range_scan f (linspace xMin xMax (min samples 400)) = (PInf, NInf)"
  shows "yRange_effect (Some f) xMin xMax samples
           = Some (Fin (- (6 / 5) - 1 / 10 ^ 9), Fin (6 / 5 + 1 / 10 ^ 9))"
  using assms by (simp add: yRange_effect_def Let_def)

text \<open>
  C6, as the code has it. When the function is finite at none of the sample points, the
  running minimum and maximum are replaced by \<open>-1\<close> and \<open>1\<close>, and then padded like every
  other range, by \<open>0.1 * 2 + 1e-9\<close> on each side: the range is
  \<open>[-1.2 - 1e-9, 1.2 + 1e-9]\<close>.
\<close>

theorem yRange_no_finite_sample:
  assumes "\<forall>x\<in>set (linspace xMin xMax (min samples 400)). \<not> isFinite (f x)"
  shows "yRange_effect (Some f) xMin xMax samples
           = Some (Fin (- (6 / 5) - 1 / 10 ^ 9), Fin (6 / 5 + 1 / 10 ^ 9))"
  by (rule yRange_padded) (rule range_scan_no_finite [OF assms])

theorem yRange_no_finite_sample_witness:
  "yRange_effect (Some (\<lambda>x. NaN)) (Fin 0) (Fin 1) 100
           = Some (Fin (- (6 / 5) - 1 / 10 ^ 9), Fin (6 / 5 + 1 / 10 ^ 9))"
  by (intro yRange_no_finite_sample) simp

text \<open>The range is not \<open>[-1, 1]\<close>: a function that is \<open>NaN\<close> everywhere, on the default domain.\<close>

theorem yRange_not_unit_range:
  "yRange_effect (Some (\<lambda>x. NaN)) (Fin (- 10)) (Fin 10) 800
           = Some (Fin (- (6 / 5) - 1 / 10 ^ 9), Fin (6 / 5 + 1 / 10 ^ 9))
   \<and> yRange_effect (Some (\<lambda>x. NaN)) (Fin (- 10)) (Fin 10) 800 \<noteq> Some (Fin (- 1), Fin 1)"
proof -
  have "yRange_effect (Some (\<lambda>x. NaN)) (Fin (- 10)) (Fin 10) 800
           = Some (Fin (- (6 / 5) - 1 / 10 ^ 9), Fin (6 / 5 + 1 / 10 ^ 9))"
    by (rule yRange_padded) (rule range_scan_no_finite, simp)
  then show ?thesis by simp
qed

lemma range_scan_const:
  assumes "xs \<noteq> []"
  shows "range_scan (\<lambda>x. Fin c) xs = (Fin c, Fin c)"
proof -
  define F where "F = (\<lambda>(x::num) (ymin, ymax).
             let y = Fin c in
             if \<not> isFinite y then (ymin, ymax)
             else (Math_min ymin y, Math_max ymax y))"
  have first: "F x (PInf, NInf) = (Fin c, Fin c)" for x
    by (simp add: F_def Math_min_def Math_max_def Let_def)
  have rest: "fold F ys (Fin c, Fin c) = (Fin c, Fin c)" for ys
    by (induction ys) (simp_all add: F_def Let_def)
  from assms obtain x ys where "xs = x # ys" by (cases xs) auto
  then have "fold F xs (PInf, NInf) = (Fin c, Fin c)"
    by (simp add: first rest)
  then show ?thesis by (simp add: range_scan_def F_def)
qed

lemma linspace_nonempty: "0 < n \<Longrightarrow> linspace a b n \<noteq> []"
  by (simp add: linspace_def Let_def)

text \<open>
  C7. For the constant function \<open>5\<close>, on every domain and with at least one sample, the
  minimum and the maximum are both \<open>5\<close>, widened to \<open>4\<close> and \<open>6\<close> and then padded by
  \<open>0.1 * 2 + 1e-9\<close>: the range is \<open>[3.8 - 1e-9, 6.2 + 1e-9]\<close>, which contains \<open>[4, 6]\<close>.
\<close>

theorem yRange_constant_five:
  assumes "1 \<le> samples"
  shows "yRange_effect (Some (\<lambda>x. Fin 5)) xMin xMax samples
           = Some (Fin (19 / 5 - 1 / 10 ^ 9), Fin (31 / 5 + 1 / 10 ^ 9))
         \<and> Fin (19 / 5 - 1 / 10 ^ 9) \<le> Fin 4 \<and> Fin 6 \<le> Fin (31 / 5 + 1 / 10 ^ 9)"
proof -
  from assms have "linspace xMin xMax (min samples 400) \<noteq> []"
    by (intro linspace_nonempty) simp
  then have "range_scan (\<lambda>x. Fin 5) (linspace xMin xMax (min samples 400)) = (Fin 5, Fin 5)"
    by (rule range_scan_const)
  then show ?thesis by (simp add: yRange_effect_def Let_def)
qed

theorem yRange_constant_five_witness:
  "yRange_effect (Some (\<lambda>x. Fin 5)) (Fin (- 10)) (Fin 10) 800
           = Some (Fin (19 / 5 - 1 / 10 ^ 9), Fin (31 / 5 + 1 / 10 ^ 9))"
  using yRange_constant_five [of 800 "Fin (- 10)" "Fin 10"] by simp

section \<open>Properties of the tick placement\<close>

lemma not_le_NaN [simp]: "\<not> NaN \<le> (b::num)"
  by (simp add: less_eq_num_def)

lemma ticks_loop_NaN: "ticks_loop NaN mx step ticks = Some ticks"
  by (subst ticks_loop.simps) simp

lemma times_NaN_right [simp]: "(a::num) * NaN = NaN"
  by (cases a) simp_all

lemma divide_NaN_right [simp]: "(a::num) / NaN = NaN"
  by (cases a) simp_all

lemma niceStep_NaN:
  assumes "Math_log10 (js_or (mx - mn) (Fin 1) / target) = NaN"
  shows "niceStep mn mx target = NaN"
  using assms by (simp add: niceStep_def Let_def)

lemma reversed_span:
  assumes "mx < mn" "0 < t"
  shows "Math_log10 (js_or (mx - mn) (Fin 1) / Fin t) = NaN"
proof (cases mn)
  case (Fin a)
  with assms show ?thesis
    by (cases mx) (simp_all add: js_or_def minus_num_def zero_less_divide_iff)
next
  case PInf
  with assms show ?thesis
    by (cases mx) (simp_all add: js_or_def minus_num_def)
next
  case NInf
  with assms show ?thesis by (cases mx) simp_all
next
  case NaN
  with assms show ?thesis by (cases mx) simp_all
qed

text \<open>
  C10. For every pair with \<open>min > max\<close> (finite or infinite), the span is negative, its
  logarithm and with it the step are \<open>NaN\<close>, the start is \<open>NaN\<close>, the loop's test fails
  at once, and \<open>niceTicks(min, max)\<close> returns the empty sequence.
\<close>

theorem niceTicks_reversed:
  assumes "mx < mn"
  shows "niceStep mn mx (Fin 8) = NaN \<and> niceTicks mn mx (Fin 8) = Some []"
proof -
  from assms have "Math_log10 (js_or (mx - mn) (Fin 1) / Fin 8) = NaN"
    by (intro reversed_span) simp_all
  then have s: "niceStep mn mx (Fin 8) = NaN" by (rule niceStep_NaN)
  then show ?thesis by (simp add: niceTicks_def ticks_loop_NaN)
qed

theorem niceTicks_reversed_witness:
  "Fin 10 < Fin 20 \<and> niceStep (Fin 20) (Fin 10) (Fin 8) = NaN
   \<and> niceTicks (Fin 20) (Fin 10) (Fin 8) = Some []"
  using niceTicks_reversed [of "Fin 10" "Fin 20"] by simp

subsection \<open>Rounding to twelve decimals\<close>











subsection \<open>The loop\<close>



subsection \<open>Ordered bounds\<close>














section \<open>Properties of the curve renderers\<close>

subsection \<open>Strokes of a polyline\<close>

lemma paint_lines:
  "fold paint (map lineTo ps) (path @ [seg], out) = (path @ [seg @ ps], out)"
  by (induction ps arbitrary: seg) (simp_all add: lineTo_def)

lemma paint_polyline:
  "fold paint (moveTo p # map lineTo ps) (path, out) = (path @ [p # ps], out)"
  using paint_lines [of ps path "[p]" out] by (simp add: moveTo_def)

lemma paint_polyline_stroke:
  "fold paint (moveTo p # map lineTo ps @ [Stroke]) ([], out) = ([p # ps], out @ [p # ps])"
  using paint_polyline [of p ps "[]" out] by simp

subsection \<open>The sample grid\<close>



lemma linspace_Fin:
  "linspace (Fin a) (Fin b) n
     = map (\<lambda>i. Fin (a + real i * ((b - a) / max 1 (real n - 1)))) [0..<n]"
proof -
  have "max 1 (real n - 1) \<noteq> 0" by simp
  then show ?thesis by (simp add: linspace_def Let_def)
qed




subsection \<open>The renderer with the jump test\<close>












subsection \<open>The renderer without the jump test\<close>








section \<open>Properties of the derivative renderer\<close>

lemma abs_fn_Fin [simp]: "abs_fn (Fin x) = Fin \<bar>x\<bar>"
  by (simp add: abs_fn_def)

lemma one_sided_equal:
  fixes x h :: real
  assumes "0 < h" "h \<le> \<bar>x\<bar>"
  shows "(\<bar>x\<bar> - \<bar>x - h\<bar>) / h = (\<bar>x + h\<bar> - \<bar>x\<bar>) / h"
proof (cases "0 \<le> x")
  case True
  with assms have "\<bar>x - h\<bar> = x - h" "\<bar>x + h\<bar> = x + h" "\<bar>x\<bar> = x" by simp_all
  then show ?thesis by simp
next
  case False
  with assms have "\<bar>x - h\<bar> = h - x" "\<bar>x + h\<bar> = - x - h" "\<bar>x\<bar> = - x" by simp_all
  then show ?thesis by simp
qed

lemma no_corner_off_zero:
  fixes x h :: real
  assumes "0 < h" "h \<le> \<bar>x\<bar>"
  shows "\<not> cornerHere (slope_left abs_fn (Fin x) (Fin h)) (slope_right abs_fn (Fin x) (Fin h))"
proof -
  from assms have "h \<noteq> 0" by simp
  with one_sided_equal [OF assms]
  have "\<bar>slope_left abs_fn (Fin x) (Fin h) - slope_right abs_fn (Fin x) (Fin h)\<bar> = Fin 0"
    by (simp add: slope_left_def slope_right_def)
  then show ?thesis
    by (simp add: cornerHere_def Let_def SLOPE_ABS_def)
qed

lemma holes_body_no_corner:
  fixes x H :: real
  assumes "0 < H" "max (1 / 10 ^ 6) (H / 2) \<le> \<bar>x\<bar>"
  shows "filter is_Arc (snd (holes_body W P abs_fn df a b d0 d1 (Fin H) (Fin x) (started, ctx)))
           = filter is_Arc ctx"
proof -
  define h where "h = max (1 / 10 ^ 6) (H / 2)"
  have h: "0 < h" by (simp add: h_def max_def)
  have hn: "Math_max (Fin (1 / 10 ^ 6)) (Fin (1 / 2) * Fin H) = Fin h"
    by (simp add: h_def)
  from assms(2) have "h \<le> \<bar>x\<bar>" by (simp add: h_def)
  note nc = no_corner_off_zero [OF h this]
  obtain sx sy where scr: "worldToScreen (Fin x) (df (Fin x)) W P a b d0 d1 = (sx, sy)"
    by (cases "worldToScreen (Fin x) (df (Fin x)) W P a b d0 d1")
  show ?thesis
    unfolding holes_body_def Let_def hn
    by (simp add: nc scr)
qed

lemma holes_fold_no_corner:
  fixes H :: real
  assumes "0 < H" "\<forall>x\<in>set xs. max (1 / 10 ^ 6) (H / 2) \<le> \<bar>x\<bar>"
  shows "filter is_Arc (snd (fold (holes_body W P abs_fn df a b d0 d1 (Fin H)) (map Fin xs) (started, ctx)))
           = filter is_Arc ctx"
  using assms(2)
proof (induction xs arbitrary: started ctx)
  case Nil
  show ?case by simp
next
  case (Cons x xs)
  obtain s' c' where step: "holes_body W P abs_fn df a b d0 d1 (Fin H) (Fin x) (started, ctx) = (s', c')"
    by (cases "holes_body W P abs_fn df a b d0 d1 (Fin H) (Fin x) (started, ctx)")
  from Cons.prems have "max (1 / 10 ^ 6) (H / 2) \<le> \<bar>x\<bar>" by simp
  from holes_body_no_corner [OF assms(1) this, of W P df a b d0 d1 started ctx]
  have "filter is_Arc c' = filter is_Arc ctx" by (simp add: step)
  moreover from Cons have "filter is_Arc (snd (fold (holes_body W P abs_fn df a b d0 d1 (Fin H)) (map Fin xs) (s', c')))
           = filter is_Arc c'" by simp
  ultimately show ?case by (simp add: step)
qed

lemma default_samples_off_zero:
  assumes "x \<in> set (map (\<lambda>i. - 10 + real i * (20 / 499)) [1..<499])"
  shows "max (1 / 10 ^ 6) ((20 / 499) / 2) \<le> \<bar>x\<bar>"
proof -
  from assms obtain i :: nat where x: "x = - 10 + real i * (20 / 499)" by auto
  consider "i \<le> 249" | "250 \<le> i" by linarith
  then show ?thesis
  proof cases
    case 1
    then have "real i \<le> 249" by simp
    then have "x \<le> - (10 / 499)" unfolding x by simp
    then show ?thesis by simp
  next
    case 2
    then have "250 \<le> real i" by simp
    then have "10 / 499 \<le> x" unfolding x by simp
    then show ?thesis by simp
  qed
qed

text \<open>
  C3 on the default domain. For \<open>abs(x)\<close> over \<open>[-10, 10]\<close> with the default 800 samples
  the derivative renderer uses 500 grid points; zero lies midway between two of them, so
  every sample is at least the half step \<open>h\<close> away from zero, the left and right
  difference quotients over \<open>h\<close> agree at every sample, and no hole marker is drawn
  (the trace holds no \<open>arc\<close> call), whatever the derivative function is.
\<close>

theorem abs_default_no_hole_markers:
  "filter is_Arc
     (drawDerivativeWithHoles W panelH abs_fn (Some df) True (Fin (- 10)) (Fin 10) 800 d0 d1) = []"
proof -
  define xs where "xs = linspace (Fin (- 10)) (Fin 10) (min 800 500)"
  define ctx0 where "ctx0 = [Save, Translate (Fin 0) (panelH + Fin 12), SetLineWidth (Fin 2),
                       SetStrokeStyle ''#10b981'', BeginPath]"
  define H where "H = (Fin 10 - Fin (- 10)) / Fin (real (length xs) - 1)"
  define run where "run = fold (holes_body W panelH abs_fn df (Fin (- 10)) (Fin 10) d0 d1 H)
                        (map (\<lambda>i. xs ! i) [1..<length xs - 1]) (False, ctx0)"
  have len: "length xs = 500" by (simp add: xs_def linspace_def Let_def)
  have nth: "xs ! i = Fin (- 10 + real i * (20 / 499))" if "i < 500" for i
    using that by (simp add: xs_def linspace_Fin)
  have samples: "map (\<lambda>i. xs ! i) [1..<length xs - 1]
          = map Fin (map (\<lambda>i. - 10 + real i * (20 / 499)) [1..<499])"
    by (simp add: len nth)
  have H: "H = Fin (20 / 499)"
    by (simp add: H_def len)
  have "filter is_Arc (snd run) = filter is_Arc ctx0"
    unfolding run_def samples H
    by (rule holes_fold_no_corner) (simp, blast intro: default_samples_off_zero)
  then have arcs: "filter is_Arc (snd run) = []"
    by (simp add: ctx0_def)
  have "drawDerivativeWithHoles W panelH abs_fn (Some df) True (Fin (- 10)) (Fin 10) 800 d0 d1
          = snd run @ [Stroke, Restore]"
    unfolding drawDerivativeWithHoles_def Let_def xs_def [symmetric] ctx0_def [symmetric]
      H_def [symmetric]
    by (simp add: split_beta run_def)
  then show ?thesis by (simp add: arcs)
qed

text \<open>
  The tangent: with the anchor at \<open>0\<close>, locked or hovered, inside the domain, nothing is
  drawn when the derivative at \<open>0\<close> is not finite.
\<close>

lemma clamp_zero:
  assumes "xMin < 0" "0 < xMax"
  shows "clamp (Fin 0) (Fin xMin) (Fin xMax) = Fin 0"
  using assms by (simp add: clamp_def)

lemma tangent_not_drawn_at_zero:
  assumes "xMin < 0" "0 < xMax" "\<not> isFinite (df (Fin 0))"
  shows "drawTangentAt W panelH f (Some df) showTangent True (Fin 0) hoverX
           (Fin xMin) (Fin xMax) y0 y1 = []"
    and "drawTangentAt W panelH f (Some df) showTangent False xLocked (Some (Fin 0))
           (Fin xMin) (Fin xMax) y0 y1 = []"
  using assms by (simp_all add: drawTangentAt_def clamp_zero Let_def)

end
